theory Spec2Isabelle
  imports Complex_Main
begin

section \<open>Health monitor plugin: a shallow embedding\<close>

text \<open>
  The development follows three classes of the repository:
  \<^item> \<open>HealthMonitorPlugin\<close> (the orchestrator: probes, sweeps, alert classification,
    interval conversion);
  \<^item> \<open>RabbitMQService\<close> (the messaging gateway: publish, request/reply, reconnection);
  \<^item> \<open>SelfMonitoringService\<close> (sampling, thresholds, bounded history).

  JavaScript objects become records, string-valued status fields with a fixed set of
  values become datatypes, a thrown exception or a rejected promise becomes the left
  injection of a sum, and every mutation of \<open>this\<close> becomes explicit state passing.
  Wall-clock timestamps and random identifiers carry no behaviour the properties below
  depend on and are left out of the records; what the runtime, the network and the
  broker answer is an explicit argument of the modelled function. The module \<open>config\<close>
  is not part of the code at hand, so configured values are arguments.
\<close>

subsection \<open>Decimal rendering of numbers in template literals\<close>

fun decimal :: "nat \<Rightarrow> string" where
  "decimal n =
     (if n < 10 then [''0123456789'' ! n]
      else decimal (n div 10) @ [''0123456789'' ! (n mod 10)])"

declare decimal.simps [simp del]

subsection \<open>Orchestrator: interval to cron expression\<close>

text \<open>
  \<open>intervalToCron(intervalMs)\<close>: \<open>Math.floor(intervalMs / 1000)\<close> is \<open>div\<close> on \<open>int\<close>,
  which rounds towards minus infinity as \<open>Math.floor\<close> does.
\<close>

definition intervalToCron :: "int \<Rightarrow> string" where
  "intervalToCron intervalMs =
     (let seconds = intervalMs div 1000 in
      if seconds \<le> 0 then ''* * * * * *''
      else if seconds < 60 then ''*/'' @ decimal (nat seconds) @ '' * * * * *''
      else
        let minutes = seconds div 60 in
        if minutes < 60 then ''0 */'' @ decimal (nat minutes) @ '' * * * *''
        else
          let hours = minutes div 60 in
          ''0 0 */'' @ decimal (nat hours) @ '' * * *'')"

subsection \<open>JavaScript array slicing\<close>

text \<open>
  \<open>Array.prototype.slice(start)\<close> with one argument: a negative \<open>start\<close> counts from
  the end and is clamped at the beginning, a positive one is clamped at the end.
\<close>

definition js_slice :: "int \<Rightarrow> 'a list \<Rightarrow> 'a list" where
  "js_slice start xs =
     (let len = int (length xs);
          k = (if start < 0 then max (len + start) 0 else min start len)
      in drop (nat k) xs)"

subsection \<open>Messaging gateway (RabbitMQService)\<close>

datatype severity = Info | Warning | Critical

fun severity_str :: "severity \<Rightarrow> string" where
  "severity_str Info = ''info''"
| "severity_str Warning = ''warning''"
| "severity_str Critical = ''critical''"

text \<open>
  An alert as \<open>generateAlert\<close> builds it: the caller's \<open>alertData\<close> with \<open>source\<close>
  written last.
\<close>

record alert =
  alert_type :: string
  severity :: severity
  alert_target :: string
  message :: string
  alert_error :: "string option"
  source :: string

datatype exchange = HealthExchange | SystemExchange

datatype body = MetricsBody | AlertBody alert | StatusBody | DbRequest string

text \<open>One call of \<open>channel.publish(exchange, routingKey, buffer, options)\<close>.\<close>

record published =
  exchange :: exchange
  routingKey :: string
  body :: body

text \<open>
  The fields of the service object, with what it handed to the channel: \<open>outbox\<close> holds
  the messages given to \<open>channel.publish\<close> (oldest first), \<open>replyQueues\<close> the temporary
  queues asserted, \<open>timers\<close> the delays of the reconnection timers that are pending, and
  \<open>scheduleLog\<close> the attempt number and delay of every
  \<open>Scheduling RabbitMQ reconnection attempt n in d ms\<close> line.
\<close>

record gateway =
  isConnected :: bool
  reconnectAttempts :: nat
  maxReconnectAttempts :: nat
  reconnectDelay :: nat
  outbox :: "published list"
  replyQueues :: "string list"
  timers :: "nat list"
  scheduleLog :: "(nat \<times> nat) list"

text \<open>The constructor.\<close>

definition new_gateway :: gateway where
  "new_gateway =
     \<lparr>isConnected = False, reconnectAttempts = 0, maxReconnectAttempts = 10,
      reconnectDelay = 5000, outbox = [], replyQueues = [], timers = [],
      scheduleLog = []\<rparr>"

text \<open>
  A thrown \<open>Error\<close> is its message. Each operation returns what the caller sees (\<open>Inl\<close>
  the error thrown) together with the service state after the call. The argument
  \<open>fault\<close> is what the channel call throws, if it throws.
\<close>

type_synonym js_error = string

definition channel_publish ::
  "published \<Rightarrow> string option \<Rightarrow> gateway \<Rightarrow> (js_error + unit) \<times> gateway" where
  "channel_publish m fault g =
     (case fault of
        Some e \<Rightarrow> (Inl e, g)
      | None \<Rightarrow> (Inr (), g\<lparr>outbox := outbox g @ [m]\<rparr>))"

definition publishHealthMetrics ::
  "string option \<Rightarrow> gateway \<Rightarrow> (js_error + unit) \<times> gateway" where
  "publishHealthMetrics fault g =
     (if \<not> isConnected g then (Inl ''RabbitMQ not connected'', g)
      else channel_publish
             \<lparr>exchange = HealthExchange, routingKey = ''metrics.health'', body = MetricsBody\<rparr>
             fault g)"

definition publishHealthAlert ::
  "alert \<Rightarrow> string option \<Rightarrow> gateway \<Rightarrow> (js_error + unit) \<times> gateway" where
  "publishHealthAlert a fault g =
     (if \<not> isConnected g then (Inl ''RabbitMQ not connected'', g)
      else channel_publish
             \<lparr>exchange = HealthExchange,
              routingKey = ''alerts.'' @ severity_str (severity a),
              body = AlertBody a\<rparr>
             fault g)"

definition publishSystemStatus ::
  "string option \<Rightarrow> gateway \<Rightarrow> (js_error + unit) \<times> gateway" where
  "publishSystemStatus fault g =
     (if \<not> isConnected g then (Inl ''RabbitMQ not connected'', g)
      else channel_publish
             \<lparr>exchange = SystemExchange, routingKey = ''status.health-monitor'',
              body = StatusBody\<rparr>
             fault g)"

subsubsection \<open>Request and reply\<close>

datatype 'a promise = Pending | Resolved 'a | Rejected js_error

text \<open>
  A delivery on the reply queue: its \<open>properties.correlationId\<close> and its content,
  \<open>None\<close> when \<open>JSON.parse\<close> throws on it.
\<close>

record reply =
  correlationId :: string
  content :: "string option"

text \<open>
  What one call of \<open>requestDatabaseHealthCheck\<close> leaves behind: the promise it returned,
  whether its timeout timer is still armed, and the deliveries it acknowledged with
  \<open>channel.ack\<close>.
\<close>

record request_call =
  requestId :: string
  replyQueue :: string
  promise :: "string promise"
  timeoutArmed :: bool
  acked :: "reply list"

text \<open>
  \<open>requestId\<close> is the value \<open>uuidv4()\<close> returned for this call; \<open>assertFault\<close> and
  \<open>publishFault\<close> are what \<open>assertQueue\<close> and \<open>publish\<close> throw, if they throw.
\<close>

definition requestDatabaseHealthCheck ::
  "string \<Rightarrow> string \<Rightarrow> string option \<Rightarrow> string option \<Rightarrow> gateway
     \<Rightarrow> (js_error + request_call) \<times> gateway" where
  "requestDatabaseHealthCheck rid query assertFault publishFault g =
     (if \<not> isConnected g then (Inl ''RabbitMQ not connected'', g)
      else
        let rq = ''db_health_reply_'' @ rid in
        case assertFault of
          Some e \<Rightarrow> (Inl e, g)
        | None \<Rightarrow>
            let g1 = g\<lparr>replyQueues := replyQueues g @ [rq]\<rparr> in
            (case channel_publish
                    \<lparr>exchange = SystemExchange, routingKey = ''database.health.request'',
                     body = DbRequest query\<rparr>
                    publishFault g1 of
               (Inl e, g2) \<Rightarrow> (Inl e, g2)
             | (Inr _, g2) \<Rightarrow>
                 (Inr \<lparr>requestId = rid, replyQueue = rq, promise = Pending,
                       timeoutArmed = True, acked = []\<rparr>, g2)))"

text \<open>
  Settling a promise has an effect only while it is pending.
\<close>

definition settle :: "'a promise \<Rightarrow> 'a promise \<Rightarrow> 'a promise" where
  "settle outcome p = (if p = Pending then outcome else p)"

text \<open>
  The consumer callback on the reply queue; \<open>None\<close> is the \<open>null\<close> delivery of a
  cancelled consumer. When \<open>JSON.parse\<close> throws, the callback ends after
  \<open>clearTimeout\<close>.
\<close>

definition onReply :: "reply option \<Rightarrow> request_call \<Rightarrow> request_call" where
  "onReply msg c =
     (case msg of
        None \<Rightarrow> c
      | Some m \<Rightarrow>
          if correlationId m = requestId c then
            (case content m of
               None \<Rightarrow> c\<lparr>timeoutArmed := False\<rparr>
             | Some response \<Rightarrow>
                 c\<lparr>timeoutArmed := False, acked := acked c @ [m],
                   promise := settle (Resolved response) (promise c)\<rparr>)
          else c)"

text \<open>The timeout timer firing, if it was not cleared.\<close>

definition onTimeout :: "request_call \<Rightarrow> request_call" where
  "onTimeout c =
     (if timeoutArmed c then
        c\<lparr>timeoutArmed := False,
          promise := settle (Rejected ''Database health check timeout'') (promise c)\<rparr>
      else c)"

subsubsection \<open>Reconnection\<close>

text \<open>\<open>connect()\<close>; \<open>fault\<close> is what \<open>amqp.connect\<close> or \<open>createChannel\<close> throws.\<close>

definition connect :: "string option \<Rightarrow> gateway \<Rightarrow> (js_error + unit) \<times> gateway" where
  "connect fault g =
     (case fault of
        Some e \<Rightarrow> (Inl e, g)
      | None \<Rightarrow> (Inr (), g\<lparr>isConnected := True, reconnectAttempts := 0\<rparr>))"

definition scheduleReconnect :: "gateway \<Rightarrow> gateway" where
  "scheduleReconnect g =
     (if reconnectAttempts g \<ge> maxReconnectAttempts g then g
      else
        let n = reconnectAttempts g + 1;
            delay = reconnectDelay g * n
        in g\<lparr>reconnectAttempts := n, timers := timers g @ [delay],
             scheduleLog := scheduleLog g @ [(n, delay)]\<rparr>)"

definition handleConnectionError :: "gateway \<Rightarrow> gateway" where
  "handleConnectionError g = scheduleReconnect (g\<lparr>isConnected := False\<rparr>)"

definition handleConnectionClose :: "gateway \<Rightarrow> gateway" where
  "handleConnectionClose g = scheduleReconnect (g\<lparr>isConnected := False\<rparr>)"

text \<open>
  The body of a reconnection timer: \<open>connect\<close>, then the topology and the handlers
  (\<open>setupFault\<close> is what they throw); any failure schedules the next attempt.
\<close>

definition reconnectAttempt :: "string option \<Rightarrow> string option \<Rightarrow> gateway \<Rightarrow> gateway" where
  "reconnectAttempt connectFault setupFault g =
     (case connect connectFault g of
        (Inl e, g1) \<Rightarrow> scheduleReconnect g1
      | (Inr _, g1) \<Rightarrow>
          (case setupFault of
             Some e \<Rightarrow> scheduleReconnect g1
           | None \<Rightarrow> g1))"

text \<open>
  What can happen to the gateway: \<open>connect()\<close> is called (as \<open>initialize\<close> does), the
  connection reports an error or closes, the \<open>i\<close>-th pending timer fires, or the
  connection is closed by \<open>close()\<close>.
\<close>

datatype gateway_event =
    Connect "string option"
  | ConnectionError
  | ConnectionClose
  | TimerFires nat "string option" "string option"
  | Close

fun gateway_step :: "gateway_event \<Rightarrow> gateway \<Rightarrow> gateway" where
  "gateway_step (Connect fault) g = snd (connect fault g)"
| "gateway_step ConnectionError g = handleConnectionError g"
| "gateway_step ConnectionClose g = handleConnectionClose g"
| "gateway_step (TimerFires i connectFault setupFault) g =
     (if i < length (timers g) then
        reconnectAttempt connectFault setupFault
          (g\<lparr>timers := take i (timers g) @ drop (Suc i) (timers g)\<rparr>)
      else g)"
| "gateway_step Close g = g\<lparr>isConnected := False\<rparr>"

definition gateway_run :: "gateway_event list \<Rightarrow> gateway \<Rightarrow> gateway" where
  "gateway_run evs g = fold gateway_step evs g"

subsection \<open>Orchestrator (HealthMonitorPlugin): targets and probes\<close>

text \<open>
  A target descriptor, with the fields the checks branch on. The address, method,
  timeout and credentials only decide what the network answers, which is the
  \<open>world\<close> below. An absent \<open>expectedStatus\<close> is \<open>None\<close>.
\<close>

record target =
  name :: string
  type :: string
  expectedStatus :: "nat option"
  critical :: bool

datatype health = Healthy | Unhealthy | Error

record check_result =
  target :: target
  status :: health
  error :: "string option"
  httpStatus :: "nat option"
  responseTime :: "nat option"

text \<open>
  What the HTTP client meets: a response with a status code, or a failure with no
  response (refused, timed out) and its message. What the socket meets: a
  \<open>connect\<close>, an \<open>error\<close> or a \<open>timeout\<close> event, or \<open>socket.connect\<close> itself
  throwing (a port out of range), which rejects the probe's promise.
\<close>

datatype http_outcome = HttpResponse nat | HttpFailure string

datatype tcp_outcome = TcpConnect | TcpError string | TcpTimeout | TcpThrows string

record world =
  http_of :: "target \<Rightarrow> http_outcome"
  tcp_of :: "target \<Rightarrow> tcp_outcome"
  elapsed :: "target \<Rightarrow> nat"
  publish_fault :: "published \<Rightarrow> string option"

text \<open>
  The \<open>validateStatus\<close> callback:
  \<open>target.expectedStatus ? status === target.expectedStatus : status < 400\<close>.
  A number is truthy when it is not zero.
\<close>

definition validateStatus :: "target \<Rightarrow> nat \<Rightarrow> bool" where
  "validateStatus t st =
     (case expectedStatus t of
        None \<Rightarrow> st < 400
      | Some e \<Rightarrow> if e \<noteq> 0 then st = e else st < 400)"

text \<open>
  The client resolves when \<open>validateStatus\<close> holds and rejects otherwise, with the
  message below and the response attached; \<open>checkHttpTarget\<close> catches every rejection.
\<close>

definition checkHttpTarget :: "target \<Rightarrow> http_outcome \<Rightarrow> check_result" where
  "checkHttpTarget t out =
     (case out of
        HttpResponse st \<Rightarrow>
          if validateStatus t st then
            \<lparr>target = t, status = Healthy, error = None, httpStatus = Some st,
             responseTime = None\<rparr>
          else
            \<lparr>target = t, status = Unhealthy,
             error = Some (''Request failed with status code '' @ decimal st),
             httpStatus = Some st, responseTime = None\<rparr>
      | HttpFailure msg \<Rightarrow>
          \<lparr>target = t, status = Unhealthy, error = Some msg, httpStatus = None,
           responseTime = None\<rparr>)"

definition checkTcpTarget :: "target \<Rightarrow> tcp_outcome \<Rightarrow> js_error + check_result" where
  "checkTcpTarget t out =
     (case out of
        TcpConnect \<Rightarrow>
          Inr \<lparr>target = t, status = Healthy, error = None, httpStatus = None,
               responseTime = None\<rparr>
      | TcpError msg \<Rightarrow>
          Inr \<lparr>target = t, status = Unhealthy, error = Some msg, httpStatus = None,
               responseTime = None\<rparr>
      | TcpTimeout \<Rightarrow>
          Inr \<lparr>target = t, status = Unhealthy, error = Some ''Connection timeout'',
               httpStatus = None, responseTime = None\<rparr>
      | TcpThrows msg \<Rightarrow> Inl msg)"

text \<open>The \<open>switch (target.type)\<close> of \<open>checkSingleTarget\<close>.\<close>

definition probe :: "world \<Rightarrow> target \<Rightarrow> js_error + check_result" where
  "probe w t =
     (if type t = ''http'' \<or> type t = ''https'' then Inr (checkHttpTarget t (http_of w t))
      else if type t = ''tcp'' then checkTcpTarget t (tcp_of w t)
      else Inr (checkHttpTarget t (http_of w t)))"

subsection \<open>Orchestrator: state, sweep and alerts\<close>

text \<open>
  The plugin object: \<open>healthResults\<close> (a \<open>Map\<close> from target name to the latest result),
  \<open>alerts\<close>, the counters of \<open>stats\<close>, and the gateway it owns. The response-time
  average and the durations are floating-point bookkeeping and are left out.
\<close>

record plugin =
  healthResults :: "string \<rightharpoonup> check_result"
  alerts :: "alert list"
  totalChecks :: nat
  successfulChecks :: nat
  failedChecks :: nat
  rabbitMQ :: gateway

text \<open>How a promise handed to \<open>Promise.allSettled\<close> settles.\<close>

datatype 'a settled = Fulfilled 'a | RejectedWith js_error

definition checkSingleTarget :: "world \<Rightarrow> target \<Rightarrow> plugin \<Rightarrow> check_result settled \<times> plugin" where
  "checkSingleTarget w t p =
     (case probe w t of
        Inr r \<Rightarrow>
          let result = r\<lparr>responseTime := Some (elapsed w t)\<rparr> in
          (Fulfilled result, p\<lparr>healthResults := (healthResults p)(name t \<mapsto> result)\<rparr>)
      | Inl msg \<Rightarrow>
          let result = \<lparr>target = t, status = Error, error = Some msg, httpStatus = None,
                        responseTime = Some (elapsed w t)\<rparr> in
          (Fulfilled result, p\<lparr>healthResults := (healthResults p)(name t \<mapsto> result)\<rparr>))"

text \<open>
  \<open>generateAlert\<close>: the alert is pushed first; a failing publication is caught and
  logged (the function then returns \<open>undefined\<close>).
\<close>

definition generateAlert :: "world \<Rightarrow> alert \<Rightarrow> plugin \<Rightarrow> alert option \<times> plugin" where
  "generateAlert w alertData p =
     (let a = alertData\<lparr>source := ''health-monitor-plugin''\<rparr>;
          p1 = p\<lparr>alerts := alerts p @ [a]\<rparr>;
          m = \<lparr>exchange = HealthExchange,
               routingKey = ''alerts.'' @ severity_str (severity a),
               body = AlertBody a\<rparr>
      in case publishHealthAlert a (publish_fault w m) (rabbitMQ p1) of
           (Inl e, g) \<Rightarrow> (None, p1\<lparr>rabbitMQ := g\<rparr>)
         | (Inr _, g) \<Rightarrow> (Some a, p1\<lparr>rabbitMQ := g\<rparr>))"

definition serviceDownAlert :: "check_result \<Rightarrow> alert" where
  "serviceDownAlert issue =
     \<lparr>alert_type = ''service-down'', severity = Critical,
      alert_target = name (target issue),
      message = ''Critical service '' @ name (target issue) @ '' is unhealthy'',
      alert_error = error issue, source = []\<rparr>"

definition serviceDegradedAlert :: "check_result \<Rightarrow> alert" where
  "serviceDegradedAlert issue =
     \<lparr>alert_type = ''service-degraded'', severity = Warning,
      alert_target = name (target issue),
      message = ''Service '' @ name (target issue) @ '' is experiencing issues'',
      alert_error = error issue, source = []\<rparr>"

definition criticalIssues :: "check_result list \<Rightarrow> check_result list" where
  "criticalIssues results =
     filter (\<lambda>r. status r \<noteq> Healthy \<and> critical (target r)) results"

definition nonCriticalIssues :: "check_result list \<Rightarrow> check_result list" where
  "nonCriticalIssues results =
     filter (\<lambda>r. status r \<noteq> Healthy \<and> \<not> critical (target r)) results"

text \<open>
  \<open>processHealthResults\<close>: the two \<open>for\<close> loops. The report to the core system that
  follows them is a call to another service inside its own \<open>try\<close>; it changes nothing
  here.
\<close>

definition processHealthResults :: "world \<Rightarrow> check_result list \<Rightarrow> plugin \<Rightarrow> plugin" where
  "processHealthResults w results p =
     (let p1 = fold (\<lambda>issue q. snd (generateAlert w (serviceDownAlert issue) q))
                 (criticalIssues results) p
      in fold (\<lambda>issue q. snd (generateAlert w (serviceDegradedAlert issue) q))
           (nonCriticalIssues results) p1)"

definition reportHealthMetrics :: "world \<Rightarrow> plugin \<Rightarrow> plugin" where
  "reportHealthMetrics w p =
     (let m = \<lparr>exchange = HealthExchange, routingKey = ''metrics.health'', body = MetricsBody\<rparr>
      in p\<lparr>rabbitMQ := snd (publishHealthMetrics (publish_fault w m) (rabbitMQ p))\<rparr>)"

text \<open>
  The probes of one sweep, in the order of the configured list. Each probe writes only
  the entry of its own target name.
\<close>

fun checkAll :: "world \<Rightarrow> target list \<Rightarrow> plugin \<Rightarrow> check_result settled list \<times> plugin" where
  "checkAll w [] p = ([], p)"
| "checkAll w (t # ts) p =
     (let (s, p1) = checkSingleTarget w t p;
          (ss, p2) = checkAll w ts p1
      in (s # ss, p2))"

text \<open>The \<open>results.map\<close> over the settled promises, by index into the target list.\<close>

definition settledResult :: "target \<Rightarrow> check_result settled \<Rightarrow> check_result" where
  "settledResult t s =
     (case s of
        Fulfilled r \<Rightarrow> r
      | RejectedWith msg \<Rightarrow>
          \<lparr>target = t, status = Error, error = Some msg, httpStatus = None,
           responseTime = None\<rparr>)"

definition runFullHealthCheck ::
  "world \<Rightarrow> target list \<Rightarrow> plugin \<Rightarrow> check_result list \<times> plugin" where
  "runFullHealthCheck w healthTargets p =
     (let (results, p1) = checkAll w healthTargets p;
          resultList = map2 settledResult healthTargets results;
          successful = length (filter (\<lambda>r. status r = Healthy) resultList);
          failed = length resultList - successful;
          p2 = p1\<lparr>totalChecks := totalChecks p1 + 1,
                  successfulChecks := successfulChecks p1 + successful,
                  failedChecks := failedChecks p1 + failed\<rparr>;
          p3 = processHealthResults w resultList p2;
          p4 = reportHealthMetrics w p3
      in (resultList, p4))"

subsection \<open>Self-monitoring engine (SelfMonitoringService)\<close>

text \<open>
  JavaScript numbers that are only compared are reals here. The configured thresholds
  and the switches of \<open>config.selfMonitoring.metrics\<close>:
\<close>

record thresholds =
  th_memoryUsageMB :: real
  th_cpuUsagePercent :: real
  th_eventLoopDelay :: real

record sm_config =
  metrics_memory :: bool
  metrics_cpu :: bool
  metrics_eventLoop :: bool
  thresholds :: thresholds

text \<open>
  What the runtime reports during one collection cycle: the clock, the resident set
  size in MB as \<open>getProcessMetrics\<close> reads it and as \<open>getHealthStatus\<close> reads it (two
  calls of \<open>process.memoryUsage()\<close>), and the CPU percentage.
\<close>

record sample =
  now :: nat
  rssMB :: real
  rssMB_health :: real
  cpuPercent :: real

text \<open>
  An alert of \<open>checkThresholds\<close> and an entry of \<open>issues\<close>; the texts built with
  \<open>toFixed\<close> are represented by their kind and value.
\<close>

record self_alert =
  sa_type :: string
  sa_severity :: severity
  sa_value :: real
  sa_threshold :: real

datatype issue = HighMemoryUsage real | HighEventLoopDelay real

record health_status =
  hs_status :: health
  issues :: "issue list"
  warnings :: "string list"

record snapshot =
  timestamp :: nat
  memory_rssMB :: "real option"
  cpu_percent :: "real option"
  eventLoop_delay :: "real option"
  health_of :: health_status

text \<open>
  The service object: \<open>metrics\<close> is a \<open>Map\<close> keyed by timestamp, kept as the list of its
  entries in insertion order; \<open>eventLoopDelay\<close> is \<open>undefined\<close> (\<open>None\<close>) until the
  event-loop monitor has measured once.
\<close>

record monitor =
  metrics :: "(nat \<times> snapshot) list"
  sm_alerts :: "self_alert list"
  eventLoopDelay :: "real option"
  startTime :: nat
  lastMetricsCollection :: "nat option"

text \<open>\<open>Map.prototype.set\<close>: an existing key keeps its place.\<close>

fun map_set :: "'k \<Rightarrow> 'v \<Rightarrow> ('k \<times> 'v) list \<Rightarrow> ('k \<times> 'v) list" where
  "map_set k v [] = [(k, v)]"
| "map_set k v ((k', v') # kvs) =
     (if k' = k then (k, v) # kvs else (k', v') # map_set k v kvs)"

text \<open>\<open>getUptime().hours\<close>.\<close>

definition uptimeHours :: "nat \<Rightarrow> monitor \<Rightarrow> int" where
  "uptimeHours t m = ((int t - int (startTime m)) div 1000) div 3600"

text \<open>\<open>getEventLoopMetrics().delay\<close>: \<open>this.eventLoopDelay || 0\<close>, or absent.\<close>

definition getEventLoopMetrics :: "sm_config \<Rightarrow> monitor \<Rightarrow> real option" where
  "getEventLoopMetrics cfg m =
     (if \<not> metrics_eventLoop cfg then None
      else Some (case eventLoopDelay m of None \<Rightarrow> 0 | Some d \<Rightarrow> d))"

text \<open>
  \<open>getHealthStatus\<close>. A comparison with \<open>undefined\<close> is false.
\<close>

definition getHealthStatus :: "sm_config \<Rightarrow> sample \<Rightarrow> monitor \<Rightarrow> health_status" where
  "getHealthStatus cfg smp m =
     (let memUsageMB = rssMB_health smp;
          i1 = (if memUsageMB > th_memoryUsageMB (thresholds cfg)
                then [HighMemoryUsage memUsageMB] else []);
          i2 = (case eventLoopDelay m of
                  None \<Rightarrow> []
                | Some d \<Rightarrow>
                    if d > th_eventLoopDelay (thresholds cfg)
                    then [HighEventLoopDelay d] else []);
          ws = (if uptimeHours (now smp) m < 1 then [''Service recently started''] else []);
          is = i1 @ i2
      in \<lparr>hs_status = (if length is > 0 then Unhealthy else Healthy),
          issues = is, warnings = ws\<rparr>)"

definition checkThresholds :: "sm_config \<Rightarrow> snapshot \<Rightarrow> monitor \<Rightarrow> self_alert list \<times> monitor" where
  "checkThresholds cfg snap m =
     (let th = thresholds cfg;
          a1 = (case memory_rssMB snap of
                  None \<Rightarrow> []
                | Some v \<Rightarrow>
                    if v > th_memoryUsageMB th
                    then [\<lparr>sa_type = ''memory-usage'', sa_severity = Warning, sa_value = v,
                           sa_threshold = th_memoryUsageMB th\<rparr>]
                    else []);
          a2 = (case cpu_percent snap of
                  None \<Rightarrow> []
                | Some v \<Rightarrow>
                    if v > th_cpuUsagePercent th
                    then [\<lparr>sa_type = ''cpu-usage'', sa_severity = Warning, sa_value = v,
                           sa_threshold = th_cpuUsagePercent th\<rparr>]
                    else []);
          a3 = (case eventLoop_delay snap of
                  None \<Rightarrow> []
                | Some v \<Rightarrow>
                    if v > th_eventLoopDelay th
                    then [\<lparr>sa_type = ''event-loop-delay'', sa_severity = Warning,
                           sa_value = v, sa_threshold = th_eventLoopDelay th\<rparr>]
                    else []);
          new_alerts = a1 @ a2 @ a3
      in (new_alerts, m\<lparr>sm_alerts := sm_alerts m @ new_alerts\<rparr>))"

definition cleanOldMetrics :: "nat \<Rightarrow> monitor \<Rightarrow> monitor" where
  "cleanOldMetrics t m =
     (let oneHourAgo = int t - 60 * 60 * 1000;
          kept = filter (\<lambda>(metricTime, _). \<not> int metricTime < oneHourAgo) (metrics m);
          m1 = m\<lparr>metrics := kept\<rparr>
      in if length (sm_alerts m1) > 100
         then m1\<lparr>sm_alerts := js_slice (- 100) (sm_alerts m1)\<rparr>
         else m1)"

text \<open>
  \<open>collectMetrics\<close>: the snapshot is stored, old entries are cleaned, then the
  thresholds are checked. The debug line at the end reads \<open>process.memory.rss\<close> and
  \<open>process.cpu.percent\<close>, so with either metric switched off it throws and the function
  returns \<open>null\<close> (after the state changes above).
\<close>

definition collectMetrics :: "sm_config \<Rightarrow> sample \<Rightarrow> monitor \<Rightarrow> snapshot option \<times> monitor" where
  "collectMetrics cfg smp m =
     (let snap =
            \<lparr>timestamp = now smp,
             memory_rssMB = (if metrics_memory cfg then Some (rssMB smp) else None),
             cpu_percent = (if metrics_cpu cfg then Some (cpuPercent smp) else None),
             eventLoop_delay = getEventLoopMetrics cfg m,
             health_of = getHealthStatus cfg smp m\<rparr>;
          m1 = m\<lparr>metrics := map_set (now smp) snap (metrics m),
                 lastMetricsCollection := Some (now smp)\<rparr>;
          m2 = cleanOldMetrics (now smp) m1;
          (new_alerts, m3) = checkThresholds cfg snap m2
      in (if metrics_memory cfg \<and> metrics_cpu cfg then Some snap else None, m3))"

text \<open>\<open>getMetricsHistory(limit = 10)\<close>; \<open>None\<close> is a call without the argument.\<close>

definition getMetricsHistory :: "int option \<Rightarrow> monitor \<Rightarrow> snapshot list" where
  "getMetricsHistory limit m =
     (let l = (case limit of None \<Rightarrow> 10 | Some l \<Rightarrow> l);
          history = map snd (metrics m)
      in if l \<noteq> 0 then js_slice (- l) history else history)"

subsection \<open>Derived notions used in the proofs\<close>

text \<open>
  The result \<open>checkSingleTarget\<close> builds for a target: both of its branches store and
  return it.
\<close>

definition checkedResult :: "world \<Rightarrow> target \<Rightarrow> check_result" where
  "checkedResult w t =
     (case probe w t of
        Inr r \<Rightarrow> r\<lparr>responseTime := Some (elapsed w t)\<rparr>
      | Inl msg \<Rightarrow>
          \<lparr>target = t, status = Error, error = Some msg, httpStatus = None,
           responseTime = Some (elapsed w t)\<rparr>)"

text \<open>
  The invariant of the reconnection machine, for a maximum \<open>M\<close> and a base delay \<open>D\<close>.
\<close>

definition reconnect_inv :: "nat \<Rightarrow> nat \<Rightarrow> gateway \<Rightarrow> bool" where
  "reconnect_inv M D g \<longleftrightarrow>
     maxReconnectAttempts g = M \<and> reconnectDelay g = D \<and> reconnectAttempts g \<le> M \<and>
     (\<forall>(n, d) \<in> set (scheduleLog g). 1 \<le> n \<and> n \<le> M \<and> d = D * n)"

subsection \<open>Example configuration\<close>

text \<open>
  The plugin as its constructor leaves it, the critical HTTP target of the specification's
  scenario, the TCP target of the README, a world in which every HTTP request is answered
  with status 500 and every socket refuses its port, and a self-monitoring configuration
  with the thresholds of the environment template (500 MB, 80 %, 100 ms).
\<close>

definition new_plugin :: plugin where
  "new_plugin =
     \<lparr>healthResults = Map.empty, alerts = [], totalChecks = 0, successfulChecks = 0,
      failedChecks = 0, rabbitMQ = new_gateway\<rparr>"

definition svc_a :: target where
  "svc_a = \<lparr>name = ''svc-a'', type = ''http'', expectedStatus = Some 200, critical = True\<rparr>"

definition redis_cache :: target where
  "redis_cache =
     \<lparr>name = ''Redis Cache'', type = ''tcp'', expectedStatus = None, critical = False\<rparr>"

definition example_world :: world where
  "example_world =
     \<lparr>http_of = (\<lambda>t. HttpResponse 500), tcp_of = (\<lambda>t. TcpThrows ''bad port''),
      elapsed = (\<lambda>t. 12), publish_fault = (\<lambda>m. None)\<rparr>"

definition example_alert :: alert where
  "example_alert =
     \<lparr>alert_type = ''service-down'', severity = Critical, alert_target = ''svc-a'',
      message = ''Critical service svc-a is unhealthy'', alert_error = None, source = []\<rparr>"

definition example_config :: sm_config where
  "example_config =
     \<lparr>metrics_memory = True, metrics_cpu = True, metrics_eventLoop = True,
      thresholds =
        \<lparr>th_memoryUsageMB = 500, th_cpuUsagePercent = 80, th_eventLoopDelay = 100\<rparr>\<rparr>"

definition busy_sample :: sample where
  "busy_sample = \<lparr>now = 7200000, rssMB = 120, rssMB_health = 120, cpuPercent = 95\<rparr>"

definition example_monitor :: "self_alert list \<Rightarrow> monitor" where
  "example_monitor as =
     \<lparr>metrics = [], sm_alerts = as, eventLoopDelay = Some 4, startTime = 0,
      lastMetricsCollection = None\<rparr>"

definition cpu_alert :: self_alert where
  "cpu_alert =
     \<lparr>sa_type = ''cpu-usage'', sa_severity = Warning, sa_value = 95, sa_threshold = 80\<rparr>"

section \<open>Properties\<close>

subsection \<open>Slices from the end\<close>

lemma js_slice_last: "0 < l \<Longrightarrow> js_slice (- l) xs = drop (length xs - nat l) xs"
  by (auto simp: js_slice_def Let_def max_def nat_diff_distrib' intro: arg_cong2[where f=drop])

subsection \<open>Gateway: calls while disconnected\<close>

text \<open>
  Claim C5. Each of the three publish operations and the request operation, called
  while \<open>isConnected\<close> is false, throws \<open>RabbitMQ not connected\<close> at once, whatever the
  channel would have done, and returns the service state it was given: nothing was
  added to the outbox or to the reply queues.
\<close>

theorem disconnected_fails_immediately:
  "\<not> isConnected g \<Longrightarrow>
     publishHealthMetrics fault g = (Inl ''RabbitMQ not connected'', g) \<and>
     publishHealthAlert a fault g = (Inl ''RabbitMQ not connected'', g) \<and>
     publishSystemStatus fault g = (Inl ''RabbitMQ not connected'', g) \<and>
     requestDatabaseHealthCheck rid query assertFault publishFault g =
       (Inl ''RabbitMQ not connected'', g)"
  by (simp add: publishHealthMetrics_def publishHealthAlert_def publishSystemStatus_def
      requestDatabaseHealthCheck_def)

theorem disconnected_fails_immediately_witness:
  "\<not> isConnected new_gateway \<and>
   publishHealthMetrics None new_gateway = (Inl ''RabbitMQ not connected'', new_gateway) \<and>
   publishHealthAlert
     \<lparr>alert_type = ''service-down'', severity = Critical, alert_target = ''svc-a'',
      message = ''Critical service svc-a is unhealthy'', alert_error = None,
      source = ''health-monitor-plugin''\<rparr>
     None new_gateway = (Inl ''RabbitMQ not connected'', new_gateway) \<and>
   publishSystemStatus None new_gateway = (Inl ''RabbitMQ not connected'', new_gateway) \<and>
   requestDatabaseHealthCheck ''r1'' ''SELECT 1'' None None new_gateway =
     (Inl ''RabbitMQ not connected'', new_gateway)"
proof -
  have off: "\<not> isConnected new_gateway"
    by (simp add: new_gateway_def)
  show ?thesis
    using off disconnected_fails_immediately [OF off] by simp
qed

subsection \<open>Gateway: replies and correlation ids\<close>

lemma matching_reply_resolves:
  "correlationId m = requestId c \<Longrightarrow> content m = Some r \<Longrightarrow> promise c = Pending \<Longrightarrow>
     promise (onReply (Some m) c) = Resolved r \<and> acked (onReply (Some m) c) = acked c @ [m]"
  by (simp add: onReply_def settle_def)

lemma resolved_only_by_matching_reply:
  "promise c = Pending \<Longrightarrow> promise (onReply msg c) = Resolved r \<Longrightarrow>
     \<exists>m. msg = Some m \<and> correlationId m = requestId c \<and> content m = Some r"
  by (auto simp: onReply_def settle_def split: option.splits if_splits)

lemma timeout_never_resolves:
  "promise c = Pending \<Longrightarrow> promise (onTimeout c) \<noteq> Resolved r"
  by (simp add: onTimeout_def settle_def)

text \<open>
  Claim C1, as stated, fails in its last part: a delivery with a foreign correlation
  id is not among the deliveries the call has acknowledged.
\<close>

theorem foreign_reply_ack_counterexample:
  "\<not> \<lparr>correlationId = ''other'', content = Some ''{}''\<rparr>
       \<in> set (acked (onReply (Some \<lparr>correlationId = ''other'', content = Some ''{}''\<rparr>)
                  \<lparr>requestId = ''r1'', replyQueue = ''db_health_reply_r1'', promise = Pending,
                   timeoutArmed = True, acked = []\<rparr>))"
  by (simp add: onReply_def)

text \<open>
  Claim C1, amended. A pending call is resolved by a delivery only if that delivery
  carries the call's own request id as correlation id, and then with the content of
  that delivery; such a delivery resolves the call and is acknowledged. The timeout
  never resolves it. A delivery with any other correlation id leaves the call exactly
  as it was: the promise is not settled, the timeout stays armed, and the delivery is
  not acknowledged.
\<close>

theorem reply_correlation:
  "(promise c = Pending \<and> promise (onReply msg c) = Resolved r \<longrightarrow>
      (\<exists>m. msg = Some m \<and> correlationId m = requestId c \<and> content m = Some r)) \<and>
   (promise c = Pending \<longrightarrow> promise (onTimeout c) \<noteq> Resolved r) \<and>
   (correlationId m = requestId c \<and> content m = Some r \<and> promise c = Pending \<longrightarrow>
      promise (onReply (Some m) c) = Resolved r \<and>
      acked (onReply (Some m) c) = acked c @ [m]) \<and>
   (correlationId m \<noteq> requestId c \<longrightarrow> onReply (Some m) c = c)"
  using resolved_only_by_matching_reply [of c msg r] matching_reply_resolves [of m c r]
    timeout_never_resolves [of c r]
  by (auto simp: onReply_def)

theorem reply_correlation_witness:
  "promise (onReply (Some \<lparr>correlationId = ''r1'', content = Some ''{}''\<rparr>)
      \<lparr>requestId = ''r1'', replyQueue = ''db_health_reply_r1'', promise = Pending,
       timeoutArmed = True, acked = []\<rparr>) = Resolved ''{}'' \<and>
   acked (onReply (Some \<lparr>correlationId = ''r1'', content = Some ''{}''\<rparr>)
      \<lparr>requestId = ''r1'', replyQueue = ''db_health_reply_r1'', promise = Pending,
       timeoutArmed = True, acked = []\<rparr>) = [\<lparr>correlationId = ''r1'', content = Some ''{}''\<rparr>] \<and>
   promise (onTimeout
      \<lparr>requestId = ''r1'', replyQueue = ''db_health_reply_r1'', promise = Pending,
       timeoutArmed = True, acked = []\<rparr>) = Rejected ''Database health check timeout'' \<and>
   onReply (Some \<lparr>correlationId = ''other'', content = Some ''{}''\<rparr>)
      \<lparr>requestId = ''r1'', replyQueue = ''db_health_reply_r1'', promise = Pending,
       timeoutArmed = True, acked = []\<rparr>
     = \<lparr>requestId = ''r1'', replyQueue = ''db_health_reply_r1'', promise = Pending,
        timeoutArmed = True, acked = []\<rparr>"
  using reply_correlation
      [of "\<lparr>requestId = ''r1'', replyQueue = ''db_health_reply_r1'', promise = Pending,
            timeoutArmed = True, acked = []\<rparr>"
          "Some \<lparr>correlationId = ''r1'', content = Some ''{}''\<rparr>" "''{}''"
          "\<lparr>correlationId = ''r1'', content = Some ''{}''\<rparr>"]
    reply_correlation
      [of "\<lparr>requestId = ''r1'', replyQueue = ''db_health_reply_r1'', promise = Pending,
            timeoutArmed = True, acked = []\<rparr>"
          "None" "''{}''"
          "\<lparr>correlationId = ''other'', content = Some ''{}''\<rparr>"]
  by (simp add: onTimeout_def settle_def)

subsection \<open>Gateway: the reconnection state machine\<close>

lemma inv_scheduleReconnect:
  "reconnect_inv M D g \<Longrightarrow> reconnect_inv M D (scheduleReconnect g)"
  by (auto simp: reconnect_inv_def scheduleReconnect_def Let_def)

lemma inv_connected:
  "reconnect_inv M D g \<Longrightarrow> reconnect_inv M D (g\<lparr>isConnected := b, reconnectAttempts := 0\<rparr>)"
  by (auto simp: reconnect_inv_def)

lemma inv_isConnected:
  "reconnect_inv M D g \<Longrightarrow> reconnect_inv M D (g\<lparr>isConnected := b\<rparr>)"
  by (auto simp: reconnect_inv_def)

lemma inv_timers:
  "reconnect_inv M D g \<Longrightarrow> reconnect_inv M D (g\<lparr>timers := ts\<rparr>)"
  by (auto simp: reconnect_inv_def)

lemma inv_reconnectAttempt:
  "reconnect_inv M D g \<Longrightarrow> reconnect_inv M D (reconnectAttempt cf sf g)"
  by (auto simp: reconnectAttempt_def connect_def inv_scheduleReconnect inv_connected
      split: option.splits)

lemma inv_step:
  "reconnect_inv M D g \<Longrightarrow> reconnect_inv M D (gateway_step ev g)"
  by (cases ev)
    (simp_all add: handleConnectionError_def handleConnectionClose_def connect_def
      inv_scheduleReconnect inv_connected inv_isConnected inv_timers inv_reconnectAttempt
      split: option.splits)

lemma inv_run:
  "reconnect_inv M D g \<Longrightarrow> reconnect_inv M D (gateway_run evs g)"
  unfolding gateway_run_def
  by (induction evs arbitrary: g) (simp_all add: inv_step)

lemma inv_new: "reconnect_inv 10 5000 new_gateway"
  by (simp add: reconnect_inv_def new_gateway_def)

text \<open>
  Claim C4. Whatever sequence of connects, connection errors, closes and timer firings
  the gateway meets after construction, its attempt counter stays at most 10, and every
  attempt it ever scheduled has a number between 1 and 10 and the delay 5000 times
  that number. Below the maximum, \<open>scheduleReconnect\<close> counts one attempt more and arms
  one timer with the delay \<open>reconnectDelay\<close> times the new attempt number; at the
  maximum it changes nothing (no timer is armed); a successful \<open>connect\<close> sets the
  counter to zero.
\<close>

theorem reconnect_attempts_bounded:
  "reconnectAttempts (gateway_run evs new_gateway) \<le> 10 \<and>
   (\<forall>(n, d) \<in> set (scheduleLog (gateway_run evs new_gateway)).
      1 \<le> n \<and> n \<le> 10 \<and> d = 5000 * n) \<and>
   (reconnectAttempts g < maxReconnectAttempts g \<longrightarrow>
      reconnectAttempts (scheduleReconnect g) = reconnectAttempts g + 1 \<and>
      timers (scheduleReconnect g) =
        timers g @ [reconnectDelay g * (reconnectAttempts g + 1)]) \<and>
   (maxReconnectAttempts g \<le> reconnectAttempts g \<longrightarrow> scheduleReconnect g = g) \<and>
   connect None g = (Inr (), g\<lparr>isConnected := True, reconnectAttempts := 0\<rparr>)"
proof -
  have "reconnect_inv 10 5000 (gateway_run evs new_gateway)"
    by (rule inv_run [OF inv_new])
  then show ?thesis
    by (simp add: reconnect_inv_def scheduleReconnect_def Let_def connect_def)
qed

theorem reconnect_attempts_bounded_witness:
  "reconnectAttempts (gateway_run [ConnectionError, ConnectionClose] new_gateway) = 2 \<and>
   scheduleLog (gateway_run [ConnectionError, ConnectionClose] new_gateway)
     = [(1, 5000), (2, 10000)] \<and>
   reconnectAttempts new_gateway < maxReconnectAttempts new_gateway \<and>
   timers (scheduleReconnect new_gateway) = [5000] \<and>
   maxReconnectAttempts (new_gateway\<lparr>reconnectAttempts := 10\<rparr>)
     \<le> reconnectAttempts (new_gateway\<lparr>reconnectAttempts := 10\<rparr>) \<and>
   scheduleReconnect (new_gateway\<lparr>reconnectAttempts := 10\<rparr>)
     = new_gateway\<lparr>reconnectAttempts := 10\<rparr>"
  using reconnect_attempts_bounded [of "[ConnectionError, ConnectionClose]" new_gateway]
    reconnect_attempts_bounded [of "[]" "new_gateway\<lparr>reconnectAttempts := 10\<rparr>"]
  by (simp add: gateway_run_def new_gateway_def handleConnectionError_def
      handleConnectionClose_def scheduleReconnect_def Let_def)

subsection \<open>Orchestrator: the HTTP probe\<close>

text \<open>
  Claim C6, as stated, fails for a configured \<open>expectedStatus\<close> of 0: the target is
  reported healthy on a response 200, which is not equal to the expected status.
\<close>

theorem expectedStatus_zero_counterexample:
  "\<not> (status (checkHttpTarget
          \<lparr>name = ''svc-a'', type = ''http'', expectedStatus = Some 0, critical = True\<rparr>
          (HttpResponse 200)) = Healthy
       \<longleftrightarrow> Some 200 = expectedStatus
          \<lparr>name = ''svc-a'', type = ''http'', expectedStatus = Some 0, critical = True\<rparr>)"
  by (simp add: checkHttpTarget_def validateStatus_def)

text \<open>
  Claim C6, amended. The HTTP probe reports healthy exactly when the status code is
  below 400 if no \<open>expectedStatus\<close> is configured or the configured one is 0, and
  exactly when the status code equals \<open>expectedStatus\<close> if a non-zero one is configured.
  Every other response, and every request that fails without a response, is reported
  unhealthy.
\<close>

theorem http_probe_classification:
  "(status (checkHttpTarget t (HttpResponse st)) = Healthy \<longleftrightarrow>
      (case expectedStatus t of
         None \<Rightarrow> st < 400
       | Some e \<Rightarrow> if e = 0 then st < 400 else st = e)) \<and>
   (status (checkHttpTarget t (HttpResponse st)) = Unhealthy \<longleftrightarrow>
      status (checkHttpTarget t (HttpResponse st)) \<noteq> Healthy) \<and>
   status (checkHttpTarget t (HttpFailure msg)) = Unhealthy"
  by (simp add: checkHttpTarget_def validateStatus_def split: option.splits)

subsection \<open>Orchestrator: one sweep\<close>

lemma checkSingleTarget_eq:
  "checkSingleTarget w t p =
     (Fulfilled (checkedResult w t),
      p\<lparr>healthResults := (healthResults p)(name t \<mapsto> checkedResult w t)\<rparr>)"
  by (simp add: checkSingleTarget_def checkedResult_def Let_def split: sum.splits)

lemma target_probe: "probe w t = Inr r \<Longrightarrow> target r = t"
  by (auto simp: probe_def checkHttpTarget_def checkTcpTarget_def
      split: if_splits http_outcome.splits tcp_outcome.splits)

lemma target_checkedResult: "target (checkedResult w t) = t"
  by (auto simp: checkedResult_def target_probe split: sum.splits)

lemma checkedResult_thrown:
  "probe w t = Inl msg \<Longrightarrow>
     status (checkedResult w t) = Error \<and> error (checkedResult w t) = Some msg"
  by (simp add: checkedResult_def)

lemma checkAll_Cons:
  "checkAll w (t # ts) p =
     (Fulfilled (checkedResult w t) #
        fst (checkAll w ts
               (p\<lparr>healthResults := (healthResults p)(name t \<mapsto> checkedResult w t)\<rparr>)),
      snd (checkAll w ts
             (p\<lparr>healthResults := (healthResults p)(name t \<mapsto> checkedResult w t)\<rparr>)))"
  by (simp add: checkSingleTarget_eq case_prod_beta)

lemma fst_checkAll: "fst (checkAll w ts p) = map (\<lambda>t. Fulfilled (checkedResult w t)) ts"
  by (induction ts arbitrary: p) (simp_all add: checkAll_Cons del: checkAll.simps(2))

lemma alerts_checkAll: "alerts (snd (checkAll w ts p)) = alerts p"
  by (induction ts arbitrary: p) (simp_all add: checkAll_Cons del: checkAll.simps(2))

lemma stored_checkAll_other:
  "n \<notin> name ` set ts \<Longrightarrow> healthResults (snd (checkAll w ts p)) n = healthResults p n"
  by (induction ts arbitrary: p) (simp_all add: checkAll_Cons del: checkAll.simps(2))

lemma stored_checkAll:
  "n \<in> name ` set ts \<Longrightarrow>
     \<exists>t' \<in> set ts. name t' = n \<and>
       healthResults (snd (checkAll w ts p)) n = Some (checkedResult w t')"
proof (induction ts arbitrary: p)
  case Nil
  then show ?case by simp
next
  case (Cons a ts)
  show ?case
  proof (cases "n \<in> name ` set ts")
    case True
    from Cons.IH [OF True] show ?thesis
      by (auto simp: checkAll_Cons simp del: checkAll.simps(2))
  next
    case False
    with Cons.prems have "n = name a" by auto
    with False show ?thesis
      by (auto simp: checkAll_Cons stored_checkAll_other simp del: checkAll.simps(2))
  qed
qed

lemma stored_checkAll_distinct:
  "distinct (map name ts) \<Longrightarrow> t \<in> set ts \<Longrightarrow>
     healthResults (snd (checkAll w ts p)) (name t) = Some (checkedResult w t)"
proof (induction ts arbitrary: p)
  case Nil
  then show ?case by simp
next
  case (Cons a ts)
  show ?case
  proof (cases "t = a")
    case True
    with Cons.prems(1) show ?thesis
      by (simp add: checkAll_Cons stored_checkAll_other del: checkAll.simps(2))
  next
    case False
    with Cons show ?thesis
      by (simp add: checkAll_Cons del: checkAll.simps(2))
  qed
qed

lemma generateAlert_alerts:
  "alerts (snd (generateAlert w a p)) = alerts p @ [a\<lparr>source := ''health-monitor-plugin''\<rparr>]"
  by (simp add: generateAlert_def Let_def split: prod.splits sum.splits)

lemma generateAlert_healthResults:
  "healthResults (snd (generateAlert w a p)) = healthResults p"
  by (simp add: generateAlert_def Let_def split: prod.splits sum.splits)

lemma fold_generateAlert_alerts:
  "alerts (fold (\<lambda>issue q. snd (generateAlert w (f issue) q)) xs p) =
     alerts p @ map (\<lambda>r. (f r)\<lparr>source := ''health-monitor-plugin''\<rparr>) xs"
  by (induction xs arbitrary: p) (simp_all add: generateAlert_alerts)

lemma fold_generateAlert_healthResults:
  "healthResults (fold (\<lambda>issue q. snd (generateAlert w (f issue) q)) xs p) = healthResults p"
  by (induction xs arbitrary: p) (simp_all add: generateAlert_healthResults)

lemma processHealthResults_alerts:
  "alerts (processHealthResults w rs p) =
     alerts p
       @ map (\<lambda>r. (serviceDownAlert r)\<lparr>source := ''health-monitor-plugin''\<rparr>)
           (criticalIssues rs)
       @ map (\<lambda>r. (serviceDegradedAlert r)\<lparr>source := ''health-monitor-plugin''\<rparr>)
           (nonCriticalIssues rs)"
  by (simp add: processHealthResults_def Let_def fold_generateAlert_alerts)

lemma processHealthResults_healthResults:
  "healthResults (processHealthResults w rs p) = healthResults p"
  by (simp add: processHealthResults_def Let_def fold_generateAlert_healthResults)

lemma fst_runFullHealthCheck:
  "fst (runFullHealthCheck w ts p) = map (checkedResult w) ts"
proof -
  have "map2 settledResult ts (map (\<lambda>t. Fulfilled (checkedResult w t)) ts)
          = map (checkedResult w) ts"
    by (induction ts) (simp_all add: settledResult_def)
  then show ?thesis
    by (simp add: runFullHealthCheck_def Let_def case_prod_beta fst_checkAll)
qed

lemma healthResults_runFullHealthCheck:
  "healthResults (snd (runFullHealthCheck w ts p)) = healthResults (snd (checkAll w ts p))"
  by (simp add: runFullHealthCheck_def Let_def case_prod_beta reportHealthMetrics_def
      processHealthResults_healthResults)

lemma alerts_runFullHealthCheck:
  "alerts (snd (runFullHealthCheck w ts p)) =
     alerts (processHealthResults w (fst (runFullHealthCheck w ts p)) p)"
  by (simp add: runFullHealthCheck_def Let_def case_prod_beta reportHealthMetrics_def
      processHealthResults_alerts alerts_checkAll)

text \<open>
  Claim C2. A sweep over any target list returns one result per target, in the order of
  the list and carrying its target; where the probe of a target throws, that result has
  the status \<open>error\<close> and the thrown message, and the results of the other targets are
  there all the same. After the sweep \<open>healthResults\<close> holds, under the name of every
  target, a result of this sweep for a target of that name; when the names are distinct
  it holds exactly the result returned for that target.
\<close>

theorem sweep_records_every_target:
  "length (fst (runFullHealthCheck w ts p)) = length ts \<and>
   (\<forall>i < length ts.
      target (fst (runFullHealthCheck w ts p) ! i) = ts ! i \<and>
      (\<forall>msg. probe w (ts ! i) = Inl msg \<longrightarrow>
         status (fst (runFullHealthCheck w ts p) ! i) = Error \<and>
         error (fst (runFullHealthCheck w ts p) ! i) = Some msg)) \<and>
   (\<forall>t \<in> set ts. \<exists>r \<in> set (fst (runFullHealthCheck w ts p)).
      healthResults (snd (runFullHealthCheck w ts p)) (name t) = Some r \<and>
      name (target r) = name t) \<and>
   (distinct (map name ts) \<longrightarrow>
      (\<forall>i < length ts.
         healthResults (snd (runFullHealthCheck w ts p)) (name (ts ! i)) =
           Some (fst (runFullHealthCheck w ts p) ! i)))"
proof -
  have stored: "\<forall>t \<in> set ts. \<exists>r \<in> set ts.
      healthResults (snd (checkAll w ts p)) (name t) = Some (checkedResult w r) \<and>
      name r = name t"
  proof
    fix t assume "t \<in> set ts"
    then have "name t \<in> name ` set ts" by simp
    from stored_checkAll [OF this, of w p]
    show "\<exists>r \<in> set ts.
      healthResults (snd (checkAll w ts p)) (name t) = Some (checkedResult w r) \<and>
      name r = name t"
      by blast
  qed
  show ?thesis
    by (simp add: fst_runFullHealthCheck healthResults_runFullHealthCheck
        target_checkedResult checkedResult_thrown stored stored_checkAll_distinct)
qed

theorem sweep_records_every_target_witness:
  "probe example_world redis_cache = Inl ''bad port'' \<and>
   target (fst (runFullHealthCheck example_world [svc_a, redis_cache] new_plugin) ! 0)
     = svc_a \<and>
   status (fst (runFullHealthCheck example_world [svc_a, redis_cache] new_plugin) ! 1) = Error \<and>
   error (fst (runFullHealthCheck example_world [svc_a, redis_cache] new_plugin) ! 1)
     = Some ''bad port'' \<and>
   distinct (map name [svc_a, redis_cache]) \<and>
   healthResults (snd (runFullHealthCheck example_world [svc_a, redis_cache] new_plugin))
     ''svc-a'' = Some (fst (runFullHealthCheck example_world [svc_a, redis_cache] new_plugin) ! 0)"
  using sweep_records_every_target [of example_world "[svc_a, redis_cache]" new_plugin]
  by (simp add: probe_def checkTcpTarget_def svc_a_def redis_cache_def example_world_def
      All_less_Suc)

subsection \<open>Orchestrator: alert classification after a sweep\<close>

text \<open>
  Claim C7. The alerts a sweep appends are, first, one \<open>service-down\<close> alert of severity
  \<open>critical\<close> for every non-healthy result of a critical target and, then, one
  \<open>service-degraded\<close> alert of severity \<open>warning\<close> for every non-healthy result of a
  non-critical target, each naming the target of its result; nothing else is appended.
  So there are as many new alerts as non-healthy results, and for every target name
  as many new critical \<open>service-down\<close> (warning \<open>service-degraded\<close>) alerts naming it
  as there are non-healthy results of critical (non-critical) targets of that name.
\<close>

theorem sweep_alert_classification:
  "(let rs = fst (runFullHealthCheck w ts p);
        new = drop (length (alerts p)) (alerts (snd (runFullHealthCheck w ts p)))
    in alerts (snd (runFullHealthCheck w ts p)) = alerts p @ new \<and>
       new = map (\<lambda>r. (serviceDownAlert r)\<lparr>source := ''health-monitor-plugin''\<rparr>)
               (criticalIssues rs)
             @ map (\<lambda>r. (serviceDegradedAlert r)\<lparr>source := ''health-monitor-plugin''\<rparr>)
               (nonCriticalIssues rs) \<and>
       length new = length (filter (\<lambda>r. status r \<noteq> Healthy) rs) \<and>
       length (filter (\<lambda>a. alert_type a = ''service-down'' \<and> severity a = Critical \<and>
                         alert_target a = n) new)
         = length (filter (\<lambda>r. status r \<noteq> Healthy \<and> critical (target r) \<and>
                             name (target r) = n) rs) \<and>
       length (filter (\<lambda>a. alert_type a = ''service-degraded'' \<and> severity a = Warning \<and>
                         alert_target a = n) new)
         = length (filter (\<lambda>r. status r \<noteq> Healthy \<and> \<not> critical (target r) \<and>
                             name (target r) = n) rs))"
proof -
  define rs where "rs = fst (runFullHealthCheck w ts p)"
  define down where
    "down = map (\<lambda>r. (serviceDownAlert r)\<lparr>source := ''health-monitor-plugin''\<rparr>)
              (criticalIssues rs)"
  define degraded where
    "degraded = map (\<lambda>r. (serviceDegradedAlert r)\<lparr>source := ''health-monitor-plugin''\<rparr>)
                  (nonCriticalIssues rs)"
  have all: "alerts (snd (runFullHealthCheck w ts p)) = alerts p @ down @ degraded"
    by (simp add: alerts_runFullHealthCheck processHealthResults_alerts rs_def down_def
        degraded_def)
  have total: "length (down @ degraded) = length (filter (\<lambda>r. status r \<noteq> Healthy) rs)"
    unfolding down_def degraded_def criticalIssues_def nonCriticalIssues_def
    by (induction rs) auto
  have d1: "length (filter (\<lambda>a. alert_type a = ''service-down'' \<and> severity a = Critical \<and>
                         alert_target a = n) (down @ degraded))
         = length (filter (\<lambda>r. status r \<noteq> Healthy \<and> critical (target r) \<and>
                             name (target r) = n) rs)"
    unfolding down_def degraded_def criticalIssues_def nonCriticalIssues_def
    by (induction rs) (auto simp: serviceDownAlert_def serviceDegradedAlert_def)
  have d2: "length (filter (\<lambda>a. alert_type a = ''service-degraded'' \<and> severity a = Warning \<and>
                         alert_target a = n) (down @ degraded))
         = length (filter (\<lambda>r. status r \<noteq> Healthy \<and> \<not> critical (target r) \<and>
                             name (target r) = n) rs)"
    unfolding down_def degraded_def criticalIssues_def nonCriticalIssues_def
    by (induction rs) (auto simp: serviceDownAlert_def serviceDegradedAlert_def)
  show ?thesis
    using total d1 d2
    by (simp add: Let_def all rs_def [symmetric] down_def [symmetric] degraded_def [symmetric])
qed

theorem sweep_alert_classification_witness:
  "status (fst (runFullHealthCheck example_world [svc_a] new_plugin) ! 0) = Unhealthy \<and>
   alerts (snd (runFullHealthCheck example_world [svc_a] new_plugin)) =
     [\<lparr>alert_type = ''service-down'', severity = Critical, alert_target = ''svc-a'',
       message = ''Critical service svc-a is unhealthy'',
       alert_error = Some ''Request failed with status code 500'',
       source = ''health-monitor-plugin''\<rparr>]"
  using sweep_alert_classification [of example_world "[svc_a]" new_plugin "''svc-a''"]
  by (simp add: Let_def fst_runFullHealthCheck checkedResult_def probe_def
      checkHttpTarget_def validateStatus_def criticalIssues_def nonCriticalIssues_def
      serviceDownAlert_def svc_a_def example_world_def new_plugin_def decimal.simps)

subsection \<open>The alert lists and their bounds\<close>

lemma cleanOldMetrics_alerts:
  "sm_alerts (cleanOldMetrics t m) = drop (length (sm_alerts m) - 100) (sm_alerts m)"
  using js_slice_last [of 100 "sm_alerts m"]
  by (simp add: cleanOldMetrics_def Let_def)

lemma cleanOldMetrics_length: "length (sm_alerts (cleanOldMetrics t m)) \<le> 100"
  by (simp add: cleanOldMetrics_alerts)

lemma checkThresholds_length:
  "length (sm_alerts (snd (checkThresholds cfg snap m))) \<le> length (sm_alerts m) + 3"
  by (simp add: checkThresholds_def Let_def split: option.splits)

lemma collectMetrics_alerts:
  "length (sm_alerts (snd (collectMetrics cfg smp m))) \<le> 103"
proof -
  obtain snap m1 where
    "snd (collectMetrics cfg smp m)
       = snd (checkThresholds cfg snap (cleanOldMetrics (now smp) m1))"
    by (simp add: collectMetrics_def Let_def case_prod_beta)
  then have "length (sm_alerts (snd (collectMetrics cfg smp m)))
      \<le> length (sm_alerts (cleanOldMetrics (now smp) m1)) + 3"
    by (simp add: checkThresholds_length)
  also have "\<dots> \<le> 103"
    using cleanOldMetrics_length [of "now smp" m1] by simp
  finally show ?thesis .
qed

text \<open>
  Claim C3, as stated, fails for both lists: with 100 alerts retained, one more
  \<open>generateAlert\<close> of the orchestrator leaves 101, and one collection cycle of the
  self-monitoring engine with the CPU threshold breached leaves 101.
\<close>

theorem alert_list_bound_counterexample:
  "\<not> length (alerts (snd (generateAlert example_world example_alert
         (new_plugin\<lparr>alerts := replicate 100 example_alert\<rparr>)))) \<le> 100 \<and>
   \<not> length (sm_alerts (snd (collectMetrics example_config busy_sample
         (example_monitor (replicate 100 cpu_alert))))) \<le> 100"
  by (simp add: generateAlert_def publishHealthAlert_def new_plugin_def new_gateway_def
      example_world_def example_alert_def Let_def collectMetrics_def example_config_def
      busy_sample_def example_monitor_def checkThresholds_def cleanOldMetrics_def
      getEventLoopMetrics_def getHealthStatus_def uptimeHours_def js_slice_def)

text \<open>
  Claim C3, amended. The self-monitoring engine keeps the most recent 100 alerts (a
  fixed number) whenever \<open>cleanOldMetrics\<close> runs, which is once in every collection
  cycle, before the threshold check of that cycle appends its alerts: the list has at
  most 100 entries after \<open>cleanOldMetrics\<close> and at most 103 after a collection cycle,
  however many alerts were generated before. The orchestrator's list is not truncated:
  every \<open>generateAlert\<close> appends one alert and drops none.
\<close>

theorem alert_list_truncation:
  "sm_alerts (cleanOldMetrics t m) = drop (length (sm_alerts m) - 100) (sm_alerts m) \<and>
   length (sm_alerts (cleanOldMetrics t m)) \<le> 100 \<and>
   length (sm_alerts (snd (collectMetrics cfg smp m))) \<le> 103 \<and>
   alerts (snd (generateAlert w a p)) = alerts p @ [a\<lparr>source := ''health-monitor-plugin''\<rparr>] \<and>
   length (alerts (snd (generateAlert w a p))) = length (alerts p) + 1"
  by (simp add: cleanOldMetrics_alerts collectMetrics_alerts generateAlert_alerts)

subsection \<open>Self-monitoring: the reported health status\<close>

text \<open>
  Claim C8, as stated, fails when only the CPU threshold is breached: the threshold
  check of the cycle raises an alert while the health status of the same cycle is
  \<open>healthy\<close>.
\<close>

theorem cpu_breach_counterexample:
  "\<not> (hs_status (getHealthStatus example_config busy_sample (example_monitor [])) = Unhealthy
       \<longleftrightarrow> fst (checkThresholds example_config
                 (the (fst (collectMetrics example_config busy_sample (example_monitor []))))
                 (example_monitor [])) \<noteq> [])"
  by (simp add: collectMetrics_def example_config_def
      busy_sample_def example_monitor_def checkThresholds_def cleanOldMetrics_def
      getEventLoopMetrics_def getHealthStatus_def uptimeHours_def Let_def)

text \<open>
  Claim C8, amended. The reported health status is \<open>unhealthy\<close> exactly when the
  resident memory read by \<open>getHealthStatus\<close> exceeds the memory threshold or the last
  measured event-loop delay exceeds the event-loop threshold, and \<open>healthy\<close> otherwise;
  the CPU threshold has no part in it.
\<close>

theorem self_health_status:
  "(hs_status (getHealthStatus cfg smp m) = Unhealthy \<longleftrightarrow>
      th_memoryUsageMB (thresholds cfg) < rssMB_health smp \<or>
      (case eventLoopDelay m of
         None \<Rightarrow> False
       | Some d \<Rightarrow> th_eventLoopDelay (thresholds cfg) < d)) \<and>
   (hs_status (getHealthStatus cfg smp m) = Healthy \<longleftrightarrow>
      hs_status (getHealthStatus cfg smp m) \<noteq> Unhealthy)"
  by (auto simp: getHealthStatus_def Let_def split: option.splits)

subsection \<open>Self-monitoring: the history accessor\<close>

text \<open>
  Claim C10. For a positive limit \<open>getMetricsHistory\<close> returns the last \<open>limit\<close>
  snapshots of the retained history (all of them when there are fewer); for the limit
  0 it returns the whole retained history.
\<close>

theorem getMetricsHistory_limit:
  "(0 < l \<longrightarrow>
      getMetricsHistory (Some l) m = drop (length (metrics m) - nat l) (map snd (metrics m))
      \<and> length (getMetricsHistory (Some l) m) = min (nat l) (length (metrics m)))
   \<and> getMetricsHistory (Some 0) m = map snd (metrics m)"
  by (auto simp: getMetricsHistory_def js_slice_last)

theorem getMetricsHistory_limit_witness:
  "(0::int) < 2 \<and>
   map timestamp (getMetricsHistory (Some 2)
     \<lparr>metrics =
        map (\<lambda>t. (t, \<lparr>timestamp = t, memory_rssMB = None, cpu_percent = None,
                      eventLoop_delay = None,
                      health_of = \<lparr>hs_status = Healthy, issues = [], warnings = []\<rparr>\<rparr>))
          [1, 2, 3],
      sm_alerts = [], eventLoopDelay = None, startTime = 0,
      lastMetricsCollection = None\<rparr>) = [2, 3] \<and>
   map timestamp (getMetricsHistory (Some 0)
     \<lparr>metrics =
        map (\<lambda>t. (t, \<lparr>timestamp = t, memory_rssMB = None, cpu_percent = None,
                      eventLoop_delay = None,
                      health_of = \<lparr>hs_status = Healthy, issues = [], warnings = []\<rparr>\<rparr>))
          [1, 2, 3],
      sm_alerts = [], eventLoopDelay = None, startTime = 0,
      lastMetricsCollection = None\<rparr>) = [1, 2, 3]"
  using getMetricsHistory_limit
    [of 2 "\<lparr>metrics =
        map (\<lambda>t. (t, \<lparr>timestamp = t, memory_rssMB = None, cpu_percent = None,
                      eventLoop_delay = None,
                      health_of = \<lparr>hs_status = Healthy, issues = [], warnings = []\<rparr>\<rparr>))
          [1, 2, 3],
      sm_alerts = [], eventLoopDelay = None, startTime = 0,
      lastMetricsCollection = None\<rparr>"]
  by simp

subsection \<open>Orchestrator: the cron expression of an interval\<close>

text \<open>
  The conversion by ranges of the interval: below one second the expression of every
  second; otherwise a step in the coarsest of the seconds, minutes and hours fields in
  which the interval is at least one unit, the step being the interval in that unit,
  rounded down.
\<close>

lemma intervalToCron_granularity:
  "intervalToCron ms =
     (if ms < 1000 then ''* * * * * *''
      else if ms < 60000 then ''*/'' @ decimal (nat (ms div 1000)) @ '' * * * * *''
      else if ms < 3600000 then ''0 */'' @ decimal (nat (ms div 60000)) @ '' * * * *''
      else ''0 0 */'' @ decimal (nat (ms div 3600000)) @ '' * * *'')"
proof -
  have m: "ms div 1000 div 60 = ms div 60000"
    using zdiv_zmult2_eq [of 1000 ms 60] by simp
  have h: "ms div 60000 div 60 = ms div 3600000"
    using zdiv_zmult2_eq [of 60000 ms 60] by simp
  have a: "ms div 1000 \<le> 0 \<longleftrightarrow> ms < 1000" by arith
  have b: "ms div 1000 < 60 \<longleftrightarrow> ms < 60000" by arith
  have c: "ms div 60000 < 60 \<longleftrightarrow> ms < 3600000" by arith
  show ?thesis
    by (simp only: intervalToCron_def Let_def m h a b c)
qed

lemma intervalToCron_120_seconds: "intervalToCron 120000 = ''0 */2 * * * *''"
  by (simp add: intervalToCron_def decimal.simps)

text \<open>
  Claim C9. For an interval of 45000 ms the conversion returns the expression with the
  step \<open>*/45\<close> in the seconds field. (In a cron seconds field that step selects the
  seconds 0 and 45 of every minute, so the job does not run every 45 seconds.)
\<close>

theorem intervalToCron_45_seconds: "intervalToCron 45000 = ''*/45 * * * * *''"
  by (simp add: intervalToCron_def decimal.simps)

end
